theory Spec2Isabelle
  imports Main "HOL-Library.Word"
begin

section \<open>Data model (internal/gateway/types.go)\<close>

text \<open>
  Go strings are byte sequences and are modelled as \<^typ>\<open>string\<close>. The fields
  \<open>CreatedAt\<close>, \<open>UpdatedAt\<close> and \<open>Version\<close> are \<open>int64\<close>; the program only
  stores and compares them, so they are embedded in \<^typ>\<open>int\<close>. \<open>Timeout\<close> and an
  instance's \<open>Load\<close> are Go \<open>int\<close> values that the program multiplies and increments; they
  are 64-bit words read as signed numbers.
\<close>

type_synonym go_int = "64 word"

record RouteConfig =
  ID :: string
  Path :: string
  Method :: string
  Handler :: string
  SandboxType :: string
  Code :: string
  Target :: string
  Timeout :: go_int
  Metadata :: "string \<rightharpoonup> string"
  CreatedAt :: int
  UpdatedAt :: int
  Version :: int

record RouteEvent =
  EventID :: string
  EventType :: string
  RouteID :: string
  RouteData :: "RouteConfig option"
  Timestamp :: int
  Source :: string

record SandboxInstance =
  ID_sandbox :: string
  URL :: string
  Type :: string
  Status :: string
  Load :: go_int
  LastPing :: int

section \<open>String helpers of the Go standard library\<close>

definition HasPrefix :: "string \<Rightarrow> string \<Rightarrow> bool" where
  "HasPrefix s p = (take (length p) s = p)"

definition TrimPrefix :: "string \<Rightarrow> string \<Rightarrow> string" where
  "TrimPrefix s p = (if HasPrefix s p then drop (length p) s else s)"

text \<open>\<open>strings.Contains\<close> and \<open>strings.ReplaceAll\<close>, as the matcher uses them: with a
  one-byte pattern.\<close>

definition ContainsByte :: "string \<Rightarrow> char \<Rightarrow> bool" where
  "ContainsByte s c = (c \<in> set s)"

definition ReplaceAllByte :: "string \<Rightarrow> char \<Rightarrow> string \<Rightarrow> string" where
  "ReplaceAllByte s c new = concat (map (\<lambda>x. if x = c then new else [x]) s)"

text \<open>\<open>fmt.Sprintf("%d", n)\<close>.\<close>

fun digits :: "nat \<Rightarrow> string" where
  "digits n = (if n < 10 then [char_of (48 + n)]
               else digits (n div 10) @ [char_of (48 + n mod 10)])"

declare digits.simps [simp del]

definition Sprintf_d :: "int \<Rightarrow> string" where
  "Sprintf_d i = (if i < 0 then CHR ''-'' # digits (nat (- i)) else digits (nat i))"

section \<open>The shared store\<close>

text \<open>
  The store is an external collaborator. It is modelled by the contents of the four keys the
  route plane uses and by \<open>fails\<close>, which says for each command whether the store answers it
  with a transport error; every error branch of the program is a branch of the model.
  A value of the hash \<open>gateway:routes\<close> is what \<open>json.Unmarshal\<close> makes of the stored bytes:
  a route, or a decoding error. \<open>config_version\<close> is what \<open>strconv.ParseInt\<close> yields on the
  string under \<open>gateway:config:version\<close>, \<open>None\<close> when the key is absent (the reply
  \<open>redis.Nil\<close>). \<open>updated_set\<close> lists the members of \<open>gateway:routes:updated\<close> in the
  order \<open>SMEMBERS\<close> returns them.
\<close>

datatype stored = Decodes RouteConfig | Undecodable

datatype command =
  CmdGet | CmdSet | CmdSMembers | CmdSAdd | CmdDel
  | CmdHGet string | CmdHGetAll | CmdHSet | CmdHDel | CmdXAdd

record Store =
  routes_hash :: "string \<rightharpoonup> stored"
  updated_set :: "string list"
  config_version :: "int option"
  stream :: "RouteEvent list"
  fails :: "command \<Rightarrow> bool"

datatype redis_error = RedisNil | TransportError

definition redis_HGet :: "Store \<Rightarrow> string \<Rightarrow> redis_error + stored" where
  "redis_HGet st field =
     (if fails st (CmdHGet field) then Inl TransportError
      else case routes_hash st field of None \<Rightarrow> Inl RedisNil | Some v \<Rightarrow> Inr v)"

definition redis_SAdd :: "Store \<Rightarrow> string \<Rightarrow> Store" where
  "redis_SAdd st member =
     (if fails st CmdSAdd then st
      else st\<lparr>updated_set := List.insert member (updated_set st)\<rparr>)"

definition redis_Del_updated :: "Store \<Rightarrow> Store" where
  "redis_Del_updated st = (if fails st CmdDel then st else st\<lparr>updated_set := []\<rparr>)"

section \<open>The route manager (internal/gateway/route_manager.go)\<close>

text \<open>
  \<open>updateChannel\<close> is a channel of capacity one that only ever carries the unit value:
  \<open>True\<close> means that a signal is pending. The mutex is not modelled: every operation below
  runs under it and is one atomic step.
\<close>

record RouteManager =
  routeCache :: "string \<rightharpoonup> RouteConfig"
  routeVersions :: "string \<rightharpoonup> int"
  redisEnabled :: bool
  lastConfigUpdate :: int
  updateChannel :: bool

text \<open>Reading a Go map of \<open>int64\<close> at a missing key yields 0.\<close>

definition version_at :: "(string \<rightharpoonup> int) \<Rightarrow> string \<Rightarrow> int" where
  "version_at m k = (case m k of None \<Rightarrow> 0 | Some v \<Rightarrow> v)"

text \<open>The clock readings one admin mutation takes: \<open>time.Now().Unix()\<close> for the timestamps,
  \<open>time.Now().UnixNano()\<close> for the route version and again for the global config version,
  \<open>time.Now().Unix()\<close> for the event id of UPDATE and DELETE, and the one inside
  \<open>PublishRouteEvent\<close>.\<close>

record clock =
  unix :: int
  unixNano :: int
  cfgNano :: int
  eventUnix :: int
  publishUnix :: int

definition empty_manager :: "bool \<Rightarrow> RouteManager" where
  "empty_manager enabled =
     \<lparr>routeCache = Map.empty, routeVersions = Map.empty, redisEnabled = enabled,
      lastConfigUpdate = 0, updateChannel = False\<rparr>"

subsection \<open>Reconciliation\<close>

definition loadAllRoutesFromRedis :: "RouteManager \<Rightarrow> Store \<Rightarrow> RouteManager" where
  "loadAllRoutesFromRedis rm st =
     (if fails st CmdHGetAll then rm
      else rm\<lparr>routeCache :=
                 (\<lambda>routeID. case routes_hash st routeID of
                                Some (Decodes route) \<Rightarrow> Some route | _ \<Rightarrow> None),
              routeVersions :=
                 (\<lambda>routeID. case routes_hash st routeID of
                                Some (Decodes route) \<Rightarrow> Some (Version route) | _ \<Rightarrow> None)\<rparr>)"

text \<open>The body of the loop over the members of the update-marker set.\<close>

definition applyMarker :: "Store \<Rightarrow> RouteManager \<Rightarrow> string \<Rightarrow> RouteManager" where
  "applyMarker st rm routeID =
     (if routeID = [] then rm
      else if HasPrefix routeID ''DELETE:'' then
        (let actualRouteID = TrimPrefix routeID ''DELETE:'' in
         if routeCache rm actualRouteID \<noteq> None
         then rm\<lparr>routeCache := (routeCache rm)(actualRouteID := None),
                 routeVersions := (routeVersions rm)(actualRouteID := None)\<rparr>
         else rm)
      else
        (case redis_HGet st routeID of
           Inl err \<Rightarrow> rm
         | Inr Undecodable \<Rightarrow> rm
         | Inr (Decodes route) \<Rightarrow>
             if Version route > version_at (routeVersions rm) routeID
             then rm\<lparr>routeCache := (routeCache rm)(routeID \<mapsto> route),
                     routeVersions := (routeVersions rm)(routeID \<mapsto> Version route)\<rparr>
             else rm))"

definition currentConfigVersion :: "Store \<Rightarrow> int" where
  "currentConfigVersion st = (case config_version st of None \<Rightarrow> 0 | Some v \<Rightarrow> v)"

definition loadRoutesIncremental :: "RouteManager \<Rightarrow> Store \<Rightarrow> RouteManager \<times> Store" where
  "loadRoutesIncremental rm st =
     (if \<not> redisEnabled rm then (rm, st)
      else if fails st CmdGet then (rm, st)
      else if currentConfigVersion st \<le> lastConfigUpdate rm then (rm, st)
      else if fails st CmdSMembers then (rm, st)
      else if length (updated_set st) > 0 then
        ((foldl (applyMarker st) rm (updated_set st))
            \<lparr>lastConfigUpdate := currentConfigVersion st\<rparr>,
         redis_Del_updated st)
      else
        ((loadAllRoutesFromRedis rm st)\<lparr>lastConfigUpdate := currentConfigVersion st\<rparr>, st))"

subsection \<open>Event publication and handling\<close>

definition PublishRouteEvent :: "Store \<Rightarrow> int \<Rightarrow> RouteEvent \<Rightarrow> string option \<times> Store" where
  "PublishRouteEvent st now event0 =
     (let event1 = event0\<lparr>Timestamp := now\<rparr>;
          event = (if Source event1 = [] then event1\<lparr>Source := ''gateway''\<rparr> else event1)
      in if fails st CmdXAdd then (Some ''failed to publish event'', st)
         else (None, st\<lparr>stream := stream st @ [event]\<rparr>))"

definition targetRouteID :: "RouteEvent \<Rightarrow> RouteConfig \<Rightarrow> string" where
  "targetRouteID event routeData = (if ID routeData = [] then RouteID event else ID routeData)"

definition handleCreateEvent :: "RouteManager \<Rightarrow> RouteEvent \<Rightarrow> string option \<times> RouteManager" where
  "handleCreateEvent rm event =
     (case RouteData event of
        None \<Rightarrow> (Some ''missing route data for CREATE event'', rm)
      | Some routeData \<Rightarrow>
          (None, rm\<lparr>routeCache := (routeCache rm)(targetRouteID event routeData \<mapsto> routeData),
                    routeVersions :=
                      (routeVersions rm)(targetRouteID event routeData \<mapsto> Version routeData)\<rparr>))"

definition handleUpdateEvent :: "RouteManager \<Rightarrow> RouteEvent \<Rightarrow> string option \<times> RouteManager" where
  "handleUpdateEvent rm event =
     (case RouteData event of
        None \<Rightarrow> (Some ''missing route data for UPDATE event'', rm)
      | Some routeData \<Rightarrow>
          (if routeCache rm (targetRouteID event routeData) \<noteq> None
           then (None, rm\<lparr>routeCache := (routeCache rm)(targetRouteID event routeData \<mapsto> routeData),
                          routeVersions :=
                            (routeVersions rm)(targetRouteID event routeData \<mapsto> Version routeData)\<rparr>)
           else (None, rm\<lparr>routeCache := (routeCache rm)(targetRouteID event routeData \<mapsto> routeData),
                          routeVersions :=
                            (routeVersions rm)(targetRouteID event routeData \<mapsto> Version routeData)\<rparr>)))"

definition delete_local :: "RouteManager \<Rightarrow> string \<Rightarrow> RouteManager" where
  "delete_local rm k =
     rm\<lparr>routeCache := (routeCache rm)(k := None), routeVersions := (routeVersions rm)(k := None)\<rparr>"

definition handleDeleteEvent :: "RouteManager \<Rightarrow> RouteEvent \<Rightarrow> string option \<times> RouteManager" where
  "handleDeleteEvent rm event =
     (if routeCache rm (RouteID event) \<noteq> None then (None, delete_local rm (RouteID event))
      else case RouteData event of
             None \<Rightarrow> (None, rm)
           | Some routeData \<Rightarrow>
               if ID routeData \<noteq> [] \<and> routeCache rm (ID routeData) \<noteq> None
               then (None, delete_local rm (ID routeData))
               else (None, rm))"

definition HandleEvent :: "RouteManager \<Rightarrow> RouteEvent \<Rightarrow> string option \<times> RouteManager" where
  "HandleEvent rm event =
     (if EventType event = ''CREATE'' then handleCreateEvent rm event
      else if EventType event = ''UPDATE'' then handleUpdateEvent rm event
      else if EventType event = ''DELETE'' then handleDeleteEvent rm event
      else (None, rm))"

subsection \<open>Admin mutations\<close>

definition validateRouteConfiguration :: "RouteConfig \<Rightarrow> string option" where
  "validateRouteConfiguration route =
     (if ID route = [] then Some ''route ID is required''
      else if Path route = [] then Some ''route path is required''
      else if Method route = [] then Some ''route method is required''
      else if Handler route = [] then Some ''route handler is required''
      else if Handler route \<notin> {''sandbox'', ''proxy'', ''static''}
        then Some (''invalid handler type: '' @ Handler route)
      else if Handler route = ''sandbox'' \<and> SandboxType route \<notin> {''python'', ''nodejs'', ''go''}
        then Some (''invalid sandbox type: '' @ SandboxType route)
      else None)"

definition updateConfigVersion :: "RouteManager \<Rightarrow> Store \<Rightarrow> int \<Rightarrow> Store" where
  "updateConfigVersion rm st newVersion =
     (if \<not> redisEnabled rm then st
      else if fails st CmdSet then st
      else st\<lparr>config_version := Some newVersion\<rparr>)"

text \<open>The two store phases the three mutations share: the hash write with the marker and the
  version bump when it succeeds, then the event.\<close>

definition persist :: "RouteManager \<Rightarrow> Store \<Rightarrow> clock \<Rightarrow> command \<Rightarrow> (Store \<Rightarrow> Store)
    \<Rightarrow> string \<Rightarrow> Store" where
  "persist rm st clk cmd write marker =
     (if redisEnabled rm then
        (if fails st cmd then st
         else updateConfigVersion rm (redis_SAdd (write st) marker) (cfgNano clk))
      else st)"

definition publish :: "RouteManager \<Rightarrow> Store \<Rightarrow> clock \<Rightarrow> RouteEvent \<Rightarrow> Store" where
  "publish rm st clk event =
     (if redisEnabled rm then snd (PublishRouteEvent st (publishUnix clk) event) else st)"

definition AddRoute :: "RouteManager \<Rightarrow> Store \<Rightarrow> clock \<Rightarrow> RouteConfig
    \<Rightarrow> string option \<times> RouteManager \<times> Store" where
  "AddRoute rm st clk route0 =
     (case validateRouteConfiguration route0 of
        Some err \<Rightarrow> (Some err, rm, st)
      | None \<Rightarrow>
          (let now = unix clk;
               route1 = (if CreatedAt route0 = 0 then route0\<lparr>CreatedAt := now\<rparr> else route0);
               route = route1\<lparr>UpdatedAt := now, Version := unixNano clk\<rparr>;
               st1 = persist rm st clk CmdHSet
                       (\<lambda>s. s\<lparr>routes_hash := (routes_hash s)(ID route \<mapsto> Decodes route)\<rparr>)
                       (ID route);
               st2 = publish rm st1 clk
                       \<lparr>EventID = ''create-'' @ Sprintf_d now, EventType = ''CREATE'',
                        RouteID = ID route, RouteData = Some route, Timestamp = now,
                        Source = ''route-manager''\<rparr>
           in (None,
               rm\<lparr>routeCache := (routeCache rm)(ID route \<mapsto> route),
                  routeVersions := (routeVersions rm)(ID route \<mapsto> Version route),
                  updateChannel := True\<rparr>,
               st2)))"

definition UpdateRoute :: "RouteManager \<Rightarrow> Store \<Rightarrow> clock \<Rightarrow> string \<Rightarrow> RouteConfig
    \<Rightarrow> string option \<times> RouteManager \<times> Store" where
  "UpdateRoute rm st clk routeID newRoute0 =
     (if routeCache rm routeID = None then (Some (''route '' @ routeID @ '' not found''), rm, st)
      else case validateRouteConfiguration newRoute0 of
        Some err \<Rightarrow> (Some err, rm, st)
      | None \<Rightarrow>
          if routeID \<noteq> ID newRoute0 then (Some ''route ID cannot be changed'', rm, st)
          else
            (let newRoute = newRoute0\<lparr>UpdatedAt := unix clk, Version := unixNano clk\<rparr>;
                 st1 = persist rm st clk CmdHSet
                         (\<lambda>s. s\<lparr>routes_hash := (routes_hash s)(routeID \<mapsto> Decodes newRoute)\<rparr>)
                         routeID;
                 st2 = publish rm st1 clk
                         \<lparr>EventID = ''update-'' @ Sprintf_d (eventUnix clk), EventType = ''UPDATE'',
                          RouteID = routeID, RouteData = Some newRoute,
                          Timestamp = eventUnix clk, Source = ''route-manager''\<rparr>
             in (None,
                 rm\<lparr>routeCache := (routeCache rm)(routeID \<mapsto> newRoute),
                    routeVersions := (routeVersions rm)(routeID \<mapsto> Version newRoute),
                    updateChannel := True\<rparr>,
                 st2)))"

definition delete_event :: "clock \<Rightarrow> string \<Rightarrow> RouteEvent" where
  "delete_event clk routeID =
     \<lparr>EventID = ''delete-'' @ Sprintf_d (eventUnix clk), EventType = ''DELETE'',
      RouteID = routeID, RouteData = None, Timestamp = eventUnix clk,
      Source = ''route-manager''\<rparr>"

definition DeleteRoute :: "RouteManager \<Rightarrow> Store \<Rightarrow> clock \<Rightarrow> string
    \<Rightarrow> string option \<times> RouteManager \<times> Store" where
  "DeleteRoute rm st clk routeID =
     (let st1 = persist rm st clk CmdHDel
                  (\<lambda>s. s\<lparr>routes_hash := (routes_hash s)(routeID := None)\<rparr>)
                  (''DELETE:'' @ routeID);
          st2 = publish rm st1 clk (delete_event clk routeID)
      in (None, (delete_local rm routeID)\<lparr>updateChannel := True\<rparr>, st2))"

subsection \<open>Reachable replica states\<close>

text \<open>
  The states a replica's catalog can be in: it boots with both maps empty, and every catalog
  operation may then run, against any store contents (peers write to the shared store) and any
  clock. The loop body of the marker pass and the full load are steps of their own, so that
  the states inside one reconciliation are reachable states as well.
\<close>

inductive reachable :: "RouteManager \<Rightarrow> bool" where
  boot: "reachable (empty_manager enabled)"
| add: "reachable rm \<Longrightarrow> reachable (fst (snd (AddRoute rm st clk route)))"
| update: "reachable rm \<Longrightarrow> reachable (fst (snd (UpdateRoute rm st clk routeID route)))"
| delete: "reachable rm \<Longrightarrow> reachable (fst (snd (DeleteRoute rm st clk routeID)))"
| event: "reachable rm \<Longrightarrow> reachable (snd (HandleEvent rm ev))"
| marker: "reachable rm \<Longrightarrow> reachable (applyMarker st rm member)"
| full: "reachable rm \<Longrightarrow> reachable (loadAllRoutesFromRedis rm st)"
| reconcile: "reachable rm \<Longrightarrow> reachable (fst (loadRoutesIncremental rm st))"

section \<open>The matcher\<close>

text \<open>
  Everything outside this repository that a gateway request meets is a field of \<open>world\<close>:
  \<^item> \<open>muxMatch p q\<close>: whether a gorilla/mux router holding the single route
    \<open>Path(p).Methods("GET")\<close> matches a GET request for \<open>q\<close>;
  \<^item> \<open>muxNilPanics p\<close>: whether \<open>Match\<close> on that router dereferences the request it
    is given, and so panics on a nil request (mux does unless the route was built with an
    error, which a template without a leading slash is);
  \<^item> \<open>MatchString pat s\<close>: the boolean \<open>regexp.MatchString(pat, s)\<close> returns (false when
    \<open>pat\<close> does not compile; the program drops the error);
  \<^item> \<open>NewRequestOk url\<close>: whether \<open>http.NewRequest\<close> accepts the URL (it returns a nil
    request and an error on a URL that does not parse, \<open>/a%zz\<close> for one);
  \<^item> \<open>Do\<close>: the outcome of \<open>client.Do\<close> on the outbound request;
  \<^item> \<open>Intn\<close>: the number \<open>rand.Intn\<close> draws (reduced modulo its argument);
  \<^item> \<open>App\<close>: the \<open>app\<close> section of the process-wide configuration.
\<close>

record AppConfig =
  GatewayKey :: string
  AdminKey :: string
  Key :: string

datatype payload = JSON "(string \<times> string) list" | Bytes string

record response =
  status :: int
  headers :: "(string \<times> string) list"
  body :: payload

record outbound =
  req_url :: string
  req_timeout :: "64 word"
  req_api_key :: string
  req_content_type :: string

datatype transport = DoError string | DoResponse response

record world =
  muxMatch :: "string \<Rightarrow> string \<Rightarrow> bool"
  muxNilPanics :: "string \<Rightarrow> bool"
  MatchString :: "string \<Rightarrow> string \<Rightarrow> bool"
  NewRequestOk :: "string \<Rightarrow> bool"
  Do :: "outbound \<Rightarrow> transport"
  Intn :: nat
  App :: AppConfig

text \<open>A call either returns a value or panics.\<close>

datatype 'a result = Returns 'a | Panics

text \<open>\<open>matchPathWithParams\<close> drops the error of \<open>http.NewRequest\<close> and hands the
  request, nil when the request path does not parse, to \<open>Match\<close>.\<close>

definition matchPathWithParams :: "world \<Rightarrow> string \<Rightarrow> string \<Rightarrow> bool result" where
  "matchPathWithParams w routePath requestPath =
     (if NewRequestOk w requestPath then Returns (muxMatch w routePath requestPath)
      else if muxNilPanics w routePath then Panics
      else Returns False)"

definition calculateMatchPriority :: "world \<Rightarrow> RouteConfig \<Rightarrow> string \<Rightarrow> string
    \<Rightarrow> int result" where
  "calculateMatchPriority w route path method =
     (if Method route \<noteq> method \<and> Method route \<noteq> ''ANY'' then Returns 0
      else if Path route = path then Returns 100
      else case matchPathWithParams w (Path route) path of
        Panics \<Rightarrow> Panics
      | Returns True \<Rightarrow> Returns 90
      | Returns False \<Rightarrow>
          if HasPrefix path (Path route @ ''/'') then Returns 80
          else if ContainsByte (Path route) (CHR ''*'')
            then (let pattern = ReplaceAllByte (Path route) (CHR ''*'') ''.*'' in
                  if MatchString w (''^'' @ pattern @ ''$'') path then Returns 70 else Returns 0)
          else Returns 0)"

text \<open>The priority ladder in the words of the specification, to compare
  \<open>calculateMatchPriority\<close> with.\<close>

definition ladder_priority :: "world \<Rightarrow> RouteConfig \<Rightarrow> string \<Rightarrow> string \<Rightarrow> int" where
  "ladder_priority w route path method =
     (if Method route \<noteq> method \<and> Method route \<noteq> ''ANY'' then 0
      else if Path route = path then 100
      else if muxMatch w (Path route) path then 90
      else if HasPrefix path (Path route @ ''/'') then 80
      else if CHR ''*'' \<in> set (Path route)
              \<and> MatchString w (''^'' @ ReplaceAllByte (Path route) (CHR ''*'') ''.*'' @ ''$'') path
        then 70
      else 0)"

text \<open>
  \<open>matchRoute\<close> ranges over the cache, a Go map, in an order the language leaves open. The
  model takes the order as the list \<open>ks\<close> of the keys as the range statement visits them;
  \<open>range_order\<close> says that \<open>ks\<close> is such an order. Each iteration has its own \<open>route\<close>
  variable (Go 1.22 and later), so the pointer kept is to the route of that iteration.
\<close>

definition range_order :: "('k \<rightharpoonup> 'v) \<Rightarrow> 'k list \<Rightarrow> bool" where
  "range_order m ks = (distinct ks \<and> set ks = dom m)"

fun matchRoute_loop :: "world \<Rightarrow> string \<Rightarrow> string \<Rightarrow> RouteConfig list
    \<Rightarrow> RouteConfig option \<Rightarrow> int \<Rightarrow> RouteConfig option result" where
  "matchRoute_loop w path method [] matchedRoute matchPriority = Returns matchedRoute"
| "matchRoute_loop w path method (route # rest) matchedRoute matchPriority =
     (case calculateMatchPriority w route path method of
        Panics \<Rightarrow> Panics
      | Returns priority \<Rightarrow>
          if priority > matchPriority
          then matchRoute_loop w path method rest (Some route) priority
          else matchRoute_loop w path method rest matchedRoute matchPriority)"

definition matchRoute :: "world \<Rightarrow> RouteManager \<Rightarrow> string list \<Rightarrow> string \<Rightarrow> string
    \<Rightarrow> RouteConfig option result" where
  "matchRoute w rm ks path method =
     matchRoute_loop w path method (List.map_filter (routeCache rm) ks) None 0"

section \<open>Sandbox pool and load balancer\<close>

text \<open>The pool's map is keyed by the instance id; \<open>instances\<close> lists its values in the order
  the range statement visits them. \<open>strategy\<close> is the strategy of the pool's own balancer.\<close>

record SandboxPool =
  instances :: "SandboxInstance list"
  strategy :: string

definition maxInt :: go_int where
  "maxInt = 0x7FFFFFFFFFFFFFFF"

fun leastConnections_loop :: "SandboxInstance list \<Rightarrow> SandboxInstance option \<Rightarrow> go_int
    \<Rightarrow> SandboxInstance option" where
  "leastConnections_loop [] selected minLoad = selected"
| "leastConnections_loop (instance # rest) selected minLoad =
     (if word_sless (Load instance) minLoad
      then leastConnections_loop rest (Some instance) (Load instance)
      else leastConnections_loop rest selected minLoad)"

text \<open>The balancer increments the load through the pointer it returns; the model returns the
  instance as it is after the increment, and \<open>GetHealthyInstance\<close> writes it back.\<close>

definition bump :: "SandboxInstance \<Rightarrow> SandboxInstance" where
  "bump selected = selected\<lparr>Load := Load selected + 1\<rparr>"

definition leastConnections :: "SandboxInstance list \<Rightarrow> SandboxInstance option" where
  "leastConnections is = map_option bump (leastConnections_loop is None maxInt)"

definition roundRobin :: "nat \<Rightarrow> SandboxInstance list \<Rightarrow> SandboxInstance option" where
  "roundRobin r is = (if length is = 0 then None else Some (bump (is ! (r mod length is))))"

definition random :: "nat \<Rightarrow> SandboxInstance list \<Rightarrow> SandboxInstance option" where
  "random r is = (if length is = 0 then None else Some (bump (is ! (r mod length is))))"

definition Select :: "string \<Rightarrow> nat \<Rightarrow> SandboxInstance list \<Rightarrow> SandboxInstance option" where
  "Select strat r is =
     (if length is = 0 then None
      else if strat = ''least-connections'' then leastConnections is
      else if strat = ''round-robin'' then roundRobin r is
      else if strat = ''random'' then random r is
      else leastConnections is)"

definition healthy_of :: "string \<Rightarrow> SandboxInstance \<Rightarrow> bool" where
  "healthy_of sandboxType instance = (Type instance = sandboxType \<and> Status instance = ''healthy'')"

definition write_back :: "SandboxInstance option \<Rightarrow> SandboxInstance list \<Rightarrow> SandboxInstance list" where
  "write_back selected is =
     (case selected of None \<Rightarrow> is
      | Some s \<Rightarrow> map (\<lambda>i. if ID_sandbox i = ID_sandbox s then s else i) is)"

definition GetHealthyInstance :: "world \<Rightarrow> SandboxPool \<Rightarrow> string
    \<Rightarrow> string + (SandboxInstance option \<times> SandboxPool)" where
  "GetHealthyInstance w pool sandboxType =
     (let candidates = filter (healthy_of sandboxType) (instances pool) in
      if length candidates = 0 then Inl (''no healthy '' @ sandboxType @ '' sandbox available'')
      else (let selected = Select (strategy pool) (Intn w) candidates in
            Inr (selected, pool\<lparr>instances := write_back selected (instances pool)\<rparr>)))"

section \<open>The dispatcher and the admin handlers\<close>

text \<open>A handler either writes a response or panics (the matcher panicked, or a nil instance
  was dereferenced).\<close>

datatype outcome = Responded response | Panicked

definition json_response :: "int \<Rightarrow> (string \<times> string) list \<Rightarrow> response" where
  "json_response code h = \<lparr>status = code, headers = [], body = JSON h\<rparr>"

text \<open>The values the execution envelope, a \<open>map[string]interface{}\<close>, holds.\<close>

datatype iface = IString string | IBool bool | IInt go_int

definition Second :: "64 word" where
  "Second = 1000000000"

definition executionReq :: "RouteConfig \<Rightarrow> (string \<rightharpoonup> iface)" where
  "executionReq route =
     [''language'' \<mapsto> IString ''python3'', ''code'' \<mapsto> IString (Code route),
      ''preload'' \<mapsto> IString [], ''enable_network'' \<mapsto> IBool True,
      ''timeout'' \<mapsto> IInt (Timeout route)]"

definition client_timeout :: "(string \<rightharpoonup> iface) \<Rightarrow> 64 word" where
  "client_timeout reqData =
     (case reqData ''timeout'' of Some (IInt to) \<Rightarrow> to * Second | _ \<Rightarrow> 30 * Second)"

definition outbound_api_key :: "world \<Rightarrow> string \<Rightarrow> string" where
  "outbound_api_key w apiKey =
     (if apiKey = [] then (if GatewayKey (App w) = [] then ''xai-sandbox'' else GatewayKey (App w))
      else apiKey)"

definition sandbox_request :: "world \<Rightarrow> SandboxInstance \<Rightarrow> (string \<rightharpoonup> iface) \<Rightarrow> string
    \<Rightarrow> outbound" where
  "sandbox_request w instance reqData apiKey =
     \<lparr>req_url = URL instance @ ''/run'', req_timeout = client_timeout reqData,
      req_api_key = outbound_api_key w apiKey, req_content_type = ''application/json''\<rparr>"

definition forwardToSandbox :: "world \<Rightarrow> SandboxInstance \<Rightarrow> (string \<rightharpoonup> iface) \<Rightarrow> string
    \<Rightarrow> response" where
  "forwardToSandbox w instance reqData apiKey =
     (if \<not> NewRequestOk w (URL instance @ ''/run'')
      then json_response 500 [(''error'', ''invalid request'')]
      else case Do w (sandbox_request w instance reqData apiKey) of
             DoError e \<Rightarrow> json_response 502 [(''error'', ''sandbox unavailable: '' @ e)]
           | DoResponse resp \<Rightarrow> resp)"

definition handleSandboxRequest :: "world \<Rightarrow> SandboxPool \<Rightarrow> RouteConfig \<Rightarrow> string
    \<Rightarrow> outcome \<times> SandboxPool" where
  "handleSandboxRequest w pool route apiKey =
     (case GetHealthyInstance w pool (SandboxType route) of
        Inl err \<Rightarrow> (Responded (json_response 503 [(''error'', err)]), pool)
      | Inr (None, pool') \<Rightarrow> (Panicked, pool')
      | Inr (Some instance, pool') \<Rightarrow>
          (Responded (forwardToSandbox w instance (executionReq route) apiKey), pool'))"

definition handleProxyRequest :: response where
  "handleProxyRequest = json_response 501 [(''error'', ''proxy handler not implemented'')]"

definition handleStaticRequest :: response where
  "handleStaticRequest = json_response 501 [(''error'', ''static handler not implemented'')]"

definition dispatch :: "world \<Rightarrow> SandboxPool \<Rightarrow> RouteConfig option \<Rightarrow> string
    \<Rightarrow> outcome \<times> SandboxPool" where
  "dispatch w pool matched apiKey =
     (case matched of
        None \<Rightarrow> (Responded (json_response 404 [(''error'', ''route not found'')]), pool)
      | Some route \<Rightarrow>
          if Handler route = ''sandbox'' then handleSandboxRequest w pool route apiKey
          else if Handler route = ''proxy'' then (Responded handleProxyRequest, pool)
          else if Handler route = ''static'' then (Responded handleStaticRequest, pool)
          else (Responded (json_response 500 [(''error'', ''unknown handler type'')]), pool))"

definition dynamicRouteHandler :: "world \<Rightarrow> RouteManager \<Rightarrow> string list \<Rightarrow> SandboxPool
    \<Rightarrow> string \<Rightarrow> string \<Rightarrow> string \<Rightarrow> outcome \<times> SandboxPool" where
  "dynamicRouteHandler w rm ks pool path method apiKey =
     (case matchRoute w rm ks path method of
        Panics \<Rightarrow> (Panicked, pool)
      | Returns matched \<Rightarrow> dispatch w pool matched apiKey)"

subsection \<open>Authentication\<close>

definition authenticateGatewayRequest :: "world \<Rightarrow> string \<Rightarrow> bool" where
  "authenticateGatewayRequest w apiKey =
     (let expectedKey = (if GatewayKey (App w) = [] then Key (App w) else GatewayKey (App w))
      in expectedKey \<noteq> [] \<and> expectedKey = apiKey)"

definition authenticatedRouteHandler :: "world \<Rightarrow> RouteManager \<Rightarrow> string list \<Rightarrow> SandboxPool
    \<Rightarrow> string \<Rightarrow> string \<Rightarrow> string \<Rightarrow> outcome \<times> SandboxPool" where
  "authenticatedRouteHandler w rm ks pool path method apiKey =
     (if \<not> authenticateGatewayRequest w apiKey
      then (Responded (json_response 401 [(''error'', ''invalid gateway api key'')]), pool)
      else dynamicRouteHandler w rm ks pool path method apiKey)"




subsection \<open>The admin listener\<close>






subsection \<open>Admin handlers\<close>

text \<open>\<open>bound\<close> is what \<open>c.BindJSON\<close> makes of the request body: an error message or a
  route.\<close>

definition updateRouteHandler :: "RouteManager \<Rightarrow> Store \<Rightarrow> clock \<Rightarrow> string
    \<Rightarrow> string + RouteConfig \<Rightarrow> response \<times> RouteManager \<times> Store" where
  "updateRouteHandler rm st clk routeId bound =
     (case bound of
        Inl err \<Rightarrow> (json_response 400 [(''error'', err)], rm, st)
      | Inr route \<Rightarrow>
          (case UpdateRoute rm st clk routeId route of
             (Some err, rm', st') \<Rightarrow> (json_response 400 [(''error'', err)], rm', st')
           | (None, rm', st') \<Rightarrow>
               (json_response 200 [(''message'', ''route updated''), (''id'', ID route)], rm', st')))"

definition deleteRouteHandler :: "RouteManager \<Rightarrow> Store \<Rightarrow> clock \<Rightarrow> string
    \<Rightarrow> response \<times> RouteManager \<times> Store" where
  "deleteRouteHandler rm st clk routeId =
     (case DeleteRoute rm st clk routeId of
        (Some err, rm', st') \<Rightarrow> (json_response 400 [(''error'', err)], rm', st')
      | (None, rm', st') \<Rightarrow> (json_response 200 [(''message'', ''route deleted'')], rm', st'))"

section \<open>Example inputs\<close>

text \<open>Concrete routes, stores and clock readings at which the theorems below are
  instantiated.\<close>

definition hello :: RouteConfig where
  "hello = \<lparr>ID = ''hello'', Path = ''/api/hello'', Method = ''GET'', Handler = ''sandbox'',
     SandboxType = ''python'', Code = ''print(1)'', Target = [], Timeout = 5,
     Metadata = Map.empty, CreatedAt = 0, UpdatedAt = 0, Version = 7\<rparr>"

definition store0 :: Store where
  "store0 = \<lparr>routes_hash = Map.empty, updated_set = [], config_version = None, stream = [],
     fails = (\<lambda>c. False)\<rparr>"

definition store1 :: Store where
  "store1 = \<lparr>routes_hash = [''hello'' \<mapsto> Decodes hello], updated_set = [''hello''],
     config_version = Some 9, stream = [], fails = (\<lambda>c. False)\<rparr>"

definition clock0 :: clock where
  "clock0 = \<lparr>unix = 1700000000, unixNano = 1700000000000000001, cfgNano = 1700000000000000002,
     eventUnix = 1700000000, publishUnix = 1700000000\<rparr>"

definition cached_hello :: RouteManager where
  "cached_hello = fst (snd (AddRoute (empty_manager True) store0 clock0 hello))"

definition newer_hello :: RouteConfig where
  "newer_hello = hello\<lparr>Code := ''print(2)'', Version := 1800000000000000000\<rparr>"

definition store2 :: Store where
  "store2 = \<lparr>routes_hash = [''hello'' \<mapsto> Decodes newer_hello], updated_set = [''hello''],
     config_version = Some 1800000000000000001, stream = [], fails = (\<lambda>c. False)\<rparr>"

definition ghost_event :: RouteEvent where
  "ghost_event = \<lparr>EventID = ''test-1'', EventType = ''CREATE'', RouteID = ''x'',
     RouteData = Some (hello\<lparr>ID := []\<rparr>), Timestamp = 1700000000, Source = ''test''\<rparr>"

definition stale_event :: RouteEvent where
  "stale_event = \<lparr>EventID = ''update-1'', EventType = ''UPDATE'', RouteID = ''hello'',
     RouteData = Some hello, Timestamp = 1700000000, Source = ''route-manager''\<rparr>"

definition exact_route :: RouteConfig where
  "exact_route = hello\<lparr>ID := ''exact'', Path := ''/a/b''\<rparr>"

definition wild_route :: RouteConfig where
  "wild_route = hello\<lparr>ID := ''wild'', Path := ''/a/*'', Handler := ''proxy''\<rparr>"

definition odd_route :: RouteConfig where
  "odd_route = hello\<lparr>ID := ''odd'', Path := ''/odd'', Handler := ''lambda''\<rparr>"

definition two_routes :: RouteManager where
  "two_routes =
     \<lparr>routeCache = [''wild'' \<mapsto> wild_route, ''exact'' \<mapsto> exact_route, ''odd'' \<mapsto> odd_route],
      routeVersions = [''wild'' \<mapsto> 7, ''exact'' \<mapsto> 7, ''odd'' \<mapsto> 7],
      redisEnabled = False, lastConfigUpdate = 0, updateChannel = False\<rparr>"

definition world0 :: world where
  "world0 =
     \<lparr>muxMatch = (\<lambda>p q. False),
      muxNilPanics = (\<lambda>p. HasPrefix p ''/''),
      MatchString = (\<lambda>pat s. pat = ''^/a/.*$'' \<and> HasPrefix s ''/a/''),
      NewRequestOk = (\<lambda>u. u \<noteq> ''/a%zz''),
      Do = (\<lambda>req. DoError ''connection refused''),
      Intn = 0,
      App = \<lparr>GatewayKey = ''dify-sandbox'', AdminKey = ''xai-admin-key'', Key = []\<rparr>\<rparr>"


definition python1 :: SandboxInstance where
  "python1 = \<lparr>ID_sandbox = ''py-1'', URL = ''http://py-1:8194'', Type = ''python'',
     Status = ''healthy'', Load = 0, LastPing = 1700000000\<rparr>"

definition pool_down :: SandboxPool where
  "pool_down = \<lparr>instances = [python1\<lparr>Status := ''unhealthy''\<rparr>], strategy = ''least-connections''\<rparr>"

definition pool_up :: SandboxPool where
  "pool_up = \<lparr>instances = [python1], strategy = ''least-connections''\<rparr>"

section \<open>The cache and the version map agree\<close>

text \<open>The two maps have the same keys, and the version map holds, at each key, the version
  of the route cached there.\<close>

definition agree :: "RouteManager \<Rightarrow> bool" where
  "agree rm = (dom (routeCache rm) = dom (routeVersions rm) \<and>
     (\<forall>k r. routeCache rm k = Some r \<longrightarrow> routeVersions rm k = Some (Version r)))"

lemma agree_alt: "agree rm = (\<forall>k. routeVersions rm k = map_option Version (routeCache rm k))"
  unfolding agree_def
  apply (rule iffI)
   apply (rule allI)
  subgoal for k by (cases "routeCache rm k"; cases "routeVersions rm k"; force)
  apply (auto simp: dom_def)
  done

lemma agree_empty: "agree (empty_manager e)"
  by (simp add: agree_alt empty_manager_def)

lemma agree_put: "agree rm \<Longrightarrow> v = Version r \<Longrightarrow>
  agree (rm\<lparr>routeCache := (routeCache rm)(k \<mapsto> r), routeVersions := (routeVersions rm)(k \<mapsto> v)\<rparr>)"
  by (simp add: agree_alt)

lemma agree_put_chan: "agree rm \<Longrightarrow> v = Version r \<Longrightarrow>
  agree (rm\<lparr>routeCache := (routeCache rm)(k \<mapsto> r), routeVersions := (routeVersions rm)(k \<mapsto> v),
           updateChannel := c\<rparr>)"
  by (simp add: agree_alt)

lemma agree_del: "agree rm \<Longrightarrow>
  agree (rm\<lparr>routeCache := (routeCache rm)(k := None), routeVersions := (routeVersions rm)(k := None)\<rparr>)"
  by (simp add: agree_alt)

lemma agree_aux:
  "agree rm \<Longrightarrow> agree (rm\<lparr>lastConfigUpdate := v\<rparr>)"
  "agree rm \<Longrightarrow> agree (rm\<lparr>updateChannel := c\<rparr>)"
  by (simp_all add: agree_alt)

lemma agree_None: "agree rm \<Longrightarrow> routeCache rm k = None \<Longrightarrow> routeVersions rm k = None"
  by (simp add: agree_alt)

lemma agree_applyMarker: "agree rm \<Longrightarrow> agree (applyMarker st rm m)"
  by (auto simp: applyMarker_def Let_def agree_put agree_del split: sum.splits stored.splits)

lemma agree_foldl: "agree rm \<Longrightarrow> agree (foldl (applyMarker st) rm ms)"
  by (induction ms arbitrary: rm) (simp_all add: agree_applyMarker)

lemma agree_full: "agree rm \<Longrightarrow> agree (loadAllRoutesFromRedis rm st)"
  by (auto simp: loadAllRoutesFromRedis_def agree_alt split: option.splits stored.splits)

lemma agree_incremental: "agree rm \<Longrightarrow> agree (fst (loadRoutesIncremental rm st))"
  by (simp add: loadRoutesIncremental_def agree_foldl agree_full agree_aux)

lemma agree_event: "agree rm \<Longrightarrow> agree (snd (HandleEvent rm ev))"
  by (auto simp: HandleEvent_def handleCreateEvent_def handleUpdateEvent_def handleDeleteEvent_def
      delete_local_def agree_put agree_del split: option.splits)

lemma agree_add: "agree rm \<Longrightarrow> agree (fst (snd (AddRoute rm st clk route)))"
  by (auto simp: AddRoute_def Let_def agree_put_chan split: option.splits)

lemma agree_update: "agree rm \<Longrightarrow> agree (fst (snd (UpdateRoute rm st clk k route)))"
  by (auto simp: UpdateRoute_def Let_def agree_put_chan split: option.splits)

lemma agree_delete: "agree rm \<Longrightarrow> agree (fst (snd (DeleteRoute rm st clk k)))"
  by (auto simp: DeleteRoute_def Let_def delete_local_def agree_del agree_aux)

lemma reachable_agree: "reachable rm \<Longrightarrow> agree rm"
  by (induction rule: reachable.induct)
     (simp_all add: agree_empty agree_add agree_update agree_delete agree_event
        agree_applyMarker agree_full agree_incremental)

lemma cached_hello_eval:
  "cached_hello =
     \<lparr>routeCache = [''hello'' \<mapsto> hello\<lparr>CreatedAt := 1700000000, UpdatedAt := 1700000000,
                                      Version := 1700000000000000001\<rparr>],
      routeVersions = [''hello'' \<mapsto> 1700000000000000001], redisEnabled = True,
      lastConfigUpdate = 0, updateChannel = True\<rparr>"
  by (simp add: cached_hello_def AddRoute_def validateRouteConfiguration_def hello_def
      empty_manager_def clock0_def Let_def)

lemma reachable_cached_hello: "reachable cached_hello"
  unfolding cached_hello_def by (rule reachable.add [OF reachable.boot])

text \<open>
  Claim C4, as amended. In every reachable replica state, so after every catalog operation,
  the cache and the version map have the same key set, and for every key \<open>k\<close> with a
  cached route \<open>r\<close> the version map holds \<open>Version r\<close> at \<open>k\<close>. The index is the key
  under which the route is cached, not the route's own \<open>ID\<close> field.
\<close>

theorem cache_versions_same_keys:
  "reachable rm \<Longrightarrow>
     dom (routeCache rm) = dom (routeVersions rm)
     \<and> (\<forall>k r. routeCache rm k = Some r \<longrightarrow> routeVersions rm k = Some (Version r))"
  using reachable_agree [of rm] by (simp add: agree_def)

theorem cache_versions_same_keys_witness:
  "reachable cached_hello
   \<and> dom (routeCache cached_hello) = dom (routeVersions cached_hello)
   \<and> routeCache cached_hello ''hello'' = Some (hello\<lparr>CreatedAt := 1700000000, UpdatedAt := 1700000000,
                                      Version := 1700000000000000001\<rparr>)
   \<and> routeVersions cached_hello ''hello'' = Some 1700000000000000001"
  using cache_versions_same_keys [OF reachable_cached_hello] reachable_cached_hello
  by (simp add: cached_hello_eval)

text \<open>
  The claim as stated reads the version map at the route's own id. A CREATE event whose
  \<open>route_data\<close> carries no id is cached under the event's \<open>route_id\<close>; the version map
  has no entry at the route's (empty) id.
\<close>

theorem versions_by_route_id_counterexample:
  "reachable (snd (HandleEvent (empty_manager True) ghost_event))
   \<and> routeCache (snd (HandleEvent (empty_manager True) ghost_event)) ''x'' = Some (hello\<lparr>ID := []\<rparr>)
   \<and> routeVersions (snd (HandleEvent (empty_manager True) ghost_event)) (ID (hello\<lparr>ID := []\<rparr>))
       \<noteq> Some (Version (hello\<lparr>ID := []\<rparr>))
   \<and> version_at (routeVersions (snd (HandleEvent (empty_manager True) ghost_event))) (ID (hello\<lparr>ID := []\<rparr>))
       \<noteq> Version (hello\<lparr>ID := []\<rparr>)"
  using reachable.event [OF reachable.boot, of True ghost_event]
  by (simp add: HandleEvent_def handleCreateEvent_def ghost_event_def targetRouteID_def
      empty_manager_def version_at_def hello_def)

section \<open>Incremental reconciliation\<close>

lemma enabled_applyMarker [simp]: "redisEnabled (applyMarker st rm m) = redisEnabled rm"
  by (simp add: applyMarker_def Let_def split: sum.splits stored.splits)

lemma enabled_foldl [simp]: "redisEnabled (foldl (applyMarker st) rm ms) = redisEnabled rm"
  by (induction ms arbitrary: rm) simp_all

lemma enabled_full [simp]: "redisEnabled (loadAllRoutesFromRedis rm st) = redisEnabled rm"
  by (simp add: loadAllRoutesFromRedis_def)

lemma Del_updated_keeps [simp]:
  "fails (redis_Del_updated st) = fails st"
  "config_version (redis_Del_updated st) = config_version st"
  by (simp_all add: redis_Del_updated_def)

lemma applyMarker_tombstone:
  "applyMarker st rm (''DELETE:'' @ i) = (if routeCache rm i \<noteq> None then delete_local rm i else rm)"
  by (simp add: applyMarker_def HasPrefix_def TrimPrefix_def delete_local_def)

lemma delete_local_absent:
  "routeCache rm k = None \<Longrightarrow> routeVersions rm k = None \<Longrightarrow> delete_local rm k = rm"
  by (simp add: delete_local_def fun_upd_idem)

text \<open>
  Claim C2. In the marker pass of incremental reconciliation, on every reachable replica state:
  a tombstone \<open>DELETE:<id>\<close> removes \<open>id\<close> from the cache and from the version map and changes
  nothing else; a plain member either leaves the state unchanged or overwrites the cache and
  the version map at that id with the route read from the store hash, and it overwrites only
  when that route's version strictly exceeds the local version of the id (0 when the id has
  none); a non-empty plain member whose route is read with such a version does overwrite. The
  pass is the left fold of this step over the members of the marker set.
\<close>

theorem marker_pass:
  assumes "reachable rm"
  shows "applyMarker st rm (''DELETE:'' @ i) = delete_local rm i
    \<and> routeCache (delete_local rm i) i = None \<and> routeVersions (delete_local rm i) i = None
    \<and> (\<not> HasPrefix m ''DELETE:'' \<longrightarrow>
         applyMarker st rm m = rm
         \<or> (\<exists>route. redis_HGet st m = Inr (Decodes route)
               \<and> version_at (routeVersions rm) m < Version route
               \<and> applyMarker st rm m =
                   rm\<lparr>routeCache := (routeCache rm)(m \<mapsto> route),
                      routeVersions := (routeVersions rm)(m \<mapsto> Version route)\<rparr>))
    \<and> (\<not> HasPrefix m ''DELETE:'' \<and> m \<noteq> [] \<and> redis_HGet st m = Inr (Decodes route)
         \<and> version_at (routeVersions rm) m < Version route \<longrightarrow>
         applyMarker st rm m =
           rm\<lparr>routeCache := (routeCache rm)(m \<mapsto> route),
              routeVersions := (routeVersions rm)(m \<mapsto> Version route)\<rparr>)
    \<and> (redisEnabled rm \<and> \<not> fails st CmdGet \<and> lastConfigUpdate rm < currentConfigVersion st
         \<and> \<not> fails st CmdSMembers \<and> updated_set st \<noteq> [] \<longrightarrow>
         fst (loadRoutesIncremental rm st) =
           (foldl (applyMarker st) rm (updated_set st))\<lparr>lastConfigUpdate := currentConfigVersion st\<rparr>)"
proof -
  have a: "agree rm" using assms by (rule reachable_agree)
  have t: "applyMarker st rm (''DELETE:'' @ i) = delete_local rm i"
  proof (cases "routeCache rm i")
    case None
    then show ?thesis using agree_None [OF a None]
      unfolding applyMarker_tombstone by (simp add: delete_local_absent)
  next
    case (Some r)
    then show ?thesis unfolding applyMarker_tombstone by simp
  qed
  have p: "\<not> HasPrefix m ''DELETE:'' \<Longrightarrow>
         applyMarker st rm m = rm
         \<or> (\<exists>route. redis_HGet st m = Inr (Decodes route)
               \<and> version_at (routeVersions rm) m < Version route
               \<and> applyMarker st rm m =
                   rm\<lparr>routeCache := (routeCache rm)(m \<mapsto> route),
                      routeVersions := (routeVersions rm)(m \<mapsto> Version route)\<rparr>)"
    by (auto simp: applyMarker_def split: sum.splits stored.splits)
  have q: "\<not> HasPrefix m ''DELETE:'' \<and> m \<noteq> [] \<and> redis_HGet st m = Inr (Decodes route)
         \<and> version_at (routeVersions rm) m < Version route \<Longrightarrow>
         applyMarker st rm m =
           rm\<lparr>routeCache := (routeCache rm)(m \<mapsto> route),
              routeVersions := (routeVersions rm)(m \<mapsto> Version route)\<rparr>"
    by (simp add: applyMarker_def)
  have l: "redisEnabled rm \<and> \<not> fails st CmdGet \<and> lastConfigUpdate rm < currentConfigVersion st
         \<and> \<not> fails st CmdSMembers \<and> updated_set st \<noteq> [] \<Longrightarrow>
         fst (loadRoutesIncremental rm st) =
           (foldl (applyMarker st) rm (updated_set st))\<lparr>lastConfigUpdate := currentConfigVersion st\<rparr>"
    by (simp add: loadRoutesIncremental_def)
  show ?thesis using t p q l by (simp add: delete_local_def)
qed

theorem marker_pass_witness:
  "reachable cached_hello
   \<and> \<not> HasPrefix ''hello'' ''DELETE:'' \<and> ''hello'' \<noteq> []
   \<and> redis_HGet store2 ''hello'' = Inr (Decodes newer_hello)
   \<and> version_at (routeVersions cached_hello) ''hello'' < Version newer_hello
   \<and> redisEnabled cached_hello \<and> \<not> fails store2 CmdGet
   \<and> lastConfigUpdate cached_hello < currentConfigVersion store2
   \<and> \<not> fails store2 CmdSMembers \<and> updated_set store2 \<noteq> []
   \<and> routeCache (applyMarker store2 cached_hello ''hello'') ''hello'' = Some newer_hello
   \<and> routeVersions (applyMarker store2 cached_hello ''hello'') ''hello'' = Some 1800000000000000000
   \<and> routeCache (applyMarker store2 cached_hello ''DELETE:hello'') ''hello'' = None
   \<and> routeVersions (applyMarker store2 cached_hello ''DELETE:hello'') ''hello'' = None
   \<and> routeCache (fst (loadRoutesIncremental cached_hello store2)) ''hello'' = Some newer_hello"
  using marker_pass [OF reachable_cached_hello, of store2 "''hello''" "''hello''" newer_hello]
    reachable_cached_hello
  by (simp add: HasPrefix_def redis_HGet_def store2_def version_at_def cached_hello_eval
      newer_hello_def hello_def currentConfigVersion_def delete_local_def)

text \<open>
  Claim C5. A reconciliation that reads a global config version not above the replica's
  \<open>lastConfigUpdate\<close> returns the replica and the store as they were; and a second
  reconciliation, run on the replica and the store as the first one left them, changes
  neither.
\<close>

theorem reconciliation_idempotent:
  "(currentConfigVersion st \<le> lastConfigUpdate rm \<longrightarrow> loadRoutesIncremental rm st = (rm, st)) \<and>
   (case loadRoutesIncremental rm st of
      (rm1, st1) \<Rightarrow> loadRoutesIncremental rm1 st1 = (rm1, st1))"
  by (simp add: loadRoutesIncremental_def currentConfigVersion_def)

theorem reconciliation_idempotent_witness:
  "currentConfigVersion store1 \<le> lastConfigUpdate ((empty_manager True)\<lparr>lastConfigUpdate := 9\<rparr>)
   \<and> loadRoutesIncremental ((empty_manager True)\<lparr>lastConfigUpdate := 9\<rparr>) store1
      = ((empty_manager True)\<lparr>lastConfigUpdate := 9\<rparr>, store1)
   \<and> routeCache (fst (loadRoutesIncremental (empty_manager True) store1)) ''hello'' = Some hello
   \<and> loadRoutesIncremental (fst (loadRoutesIncremental (empty_manager True) store1))
        (snd (loadRoutesIncremental (empty_manager True) store1))
      = loadRoutesIncremental (empty_manager True) store1"
  using reconciliation_idempotent [of store1 "(empty_manager True)\<lparr>lastConfigUpdate := 9\<rparr>"]
    reconciliation_idempotent [of store1 "empty_manager True"]
  by (simp add: currentConfigVersion_def store1_def empty_manager_def loadRoutesIncremental_def
      applyMarker_def HasPrefix_def redis_HGet_def version_at_def hello_def split: prod.splits)

section \<open>Versions applied to one route id\<close>

text \<open>
  Against claim C3 as stated: the replica holds version 1700000000000000001 for \<open>hello\<close>,
  applied by an admin AddRoute; an UPDATE event carrying version 7 is then applied, and the
  version held drops to 7.
\<close>

theorem stale_event_counterexample:
  "reachable cached_hello
   \<and> routeVersions cached_hello ''hello'' = Some 1700000000000000001
   \<and> routeVersions (snd (HandleEvent cached_hello stale_event)) ''hello'' = Some 7
   \<and> \<not> (1700000000000000001 \<le> (7::int))"
  using reachable_cached_hello
  by (simp add: HandleEvent_def handleUpdateEvent_def stale_event_def targetRouteID_def
      cached_hello_eval hello_def)

lemma applyMarker_versions:
  "routeVersions rm k = Some v \<Longrightarrow> routeVersions (applyMarker st rm m) k = Some v' \<Longrightarrow> v \<le> v'"
  by (auto simp: applyMarker_def version_at_def Let_def split: if_splits sum.splits stored.splits)

text \<open>
  Claim C3, as amended. A step of the marker pass never replaces the version held for an id
  by a lower one. An AddRoute or UpdateRoute that succeeds applies the nanosecond clock
  reading of that call at the route's id, and a CREATE or UPDATE event with route data applies
  the version its route data carries at the event's target id, whatever version was held.
\<close>

theorem applied_versions:
  "(routeVersions rm k = Some v \<and> routeVersions (applyMarker st rm m) k = Some v' \<longrightarrow> v \<le> v')
   \<and> (fst (AddRoute rm st clk route) = None \<longrightarrow>
        routeVersions (fst (snd (AddRoute rm st clk route))) (ID route) = Some (unixNano clk))
   \<and> (fst (UpdateRoute rm st clk i route) = None \<longrightarrow>
        routeVersions (fst (snd (UpdateRoute rm st clk i route))) i = Some (unixNano clk))
   \<and> (EventType ev \<in> {''CREATE'', ''UPDATE''} \<and> RouteData ev = Some data \<longrightarrow>
        routeVersions (snd (HandleEvent rm ev)) (targetRouteID ev data) = Some (Version data))"
  apply (intro conjI impI)
  subgoal using applyMarker_versions by blast
  subgoal by (auto simp: AddRoute_def Let_def split: option.splits)
  subgoal by (auto simp: UpdateRoute_def Let_def split: option.splits if_splits)
  subgoal by (auto simp: HandleEvent_def handleCreateEvent_def handleUpdateEvent_def)
  done

theorem applied_versions_witness:
  "routeVersions cached_hello ''hello'' = Some 1700000000000000001
   \<and> routeVersions (applyMarker store2 cached_hello ''hello'') ''hello'' = Some 1800000000000000000
   \<and> (1700000000000000001::int) \<le> 1800000000000000000
   \<and> fst (AddRoute (empty_manager True) store0 clock0 hello) = None
   \<and> routeVersions (fst (snd (AddRoute (empty_manager True) store0 clock0 hello))) (ID hello)
       = Some (unixNano clock0)
   \<and> fst (UpdateRoute cached_hello store0 clock0 ''hello'' hello) = None
   \<and> routeVersions (fst (snd (UpdateRoute cached_hello store0 clock0 ''hello'' hello))) ''hello''
       = Some (unixNano clock0)
   \<and> EventType stale_event \<in> {''CREATE'', ''UPDATE''} \<and> RouteData stale_event = Some hello
   \<and> routeVersions (snd (HandleEvent cached_hello stale_event)) (targetRouteID stale_event hello)
       = Some (Version hello)"
proof -
  have m: "routeVersions (applyMarker store2 cached_hello ''hello'') ''hello'' = Some 1800000000000000000"
    by (simp add: applyMarker_def HasPrefix_def redis_HGet_def store2_def version_at_def
        cached_hello_eval newer_hello_def hello_def)
  have a: "fst (AddRoute (empty_manager True) store0 clock0 hello) = None"
    by (simp add: AddRoute_def validateRouteConfiguration_def hello_def Let_def)
  have u: "fst (UpdateRoute cached_hello store0 clock0 ''hello'' hello) = None"
    by (simp add: UpdateRoute_def validateRouteConfiguration_def cached_hello_eval hello_def Let_def)
  have e: "EventType stale_event \<in> {''CREATE'', ''UPDATE''}" "RouteData stale_event = Some hello"
    by (simp_all add: stale_event_def)
  have c: "routeVersions cached_hello ''hello'' = Some 1700000000000000001"
    by (simp add: cached_hello_eval)
  show ?thesis
    using applied_versions [where rm = cached_hello and st = store2 and clk = clock0 and
        i = "''hello''" and route = hello and ev = stale_event and data = hello and
        k = "''hello''" and v = 1700000000000000001 and v' = 1800000000000000000 and
        m = "''hello''"]
      applied_versions [where rm = "empty_manager True" and st = store0 and clk = clock0 and
        i = "''hello''" and route = hello and ev = stale_event and data = hello and
        k = "''hello''" and v = 0 and v' = 0 and m = "[]"]
      applied_versions [where rm = cached_hello and st = store0 and clk = clock0 and
        i = "''hello''" and route = hello and ev = stale_event and data = hello and
        k = "''hello''" and v = 0 and v' = 0 and m = "[]"]
      m a u e c
    by auto
qed

section \<open>Admin mutations\<close>

lemma persist_keeps [simp]:
  "stream (persist rm st clk cmd (\<lambda>s. s\<lparr>routes_hash := f s\<rparr>) marker) = stream st"
  "fails (persist rm st clk cmd (\<lambda>s. s\<lparr>routes_hash := f s\<rparr>) marker) = fails st"
  by (simp_all add: persist_def updateConfigVersion_def redis_SAdd_def)

text \<open>
  Claim C9. Every call of DeleteRoute returns no error, so the admin DELETE endpoint answers
  200, whether or not the id is cached; afterwards the id is in neither the cache nor the
  version map; and when the store is enabled the DELETE event for that id is handed to
  PublishRouteEvent, which appends it to the stream unless the store refuses the XADD.
\<close>
theorem DeleteRoute_succeeds:
  "fst (DeleteRoute rm st clk i) = None
   \<and> status (fst (deleteRouteHandler rm st clk i)) = 200
   \<and> routeCache (fst (snd (DeleteRoute rm st clk i))) i = None
   \<and> routeVersions (fst (snd (DeleteRoute rm st clk i))) i = None
   \<and> (redisEnabled rm \<longrightarrow>
        snd (snd (DeleteRoute rm st clk i)) =
          snd (PublishRouteEvent
                 (persist rm st clk CmdHDel (\<lambda>s. s\<lparr>routes_hash := (routes_hash s)(i := None)\<rparr>)
                    (''DELETE:'' @ i))
                 (publishUnix clk) (delete_event clk i)))
   \<and> (redisEnabled rm \<and> \<not> fails st CmdXAdd \<longrightarrow>
        stream (snd (snd (DeleteRoute rm st clk i))) =
          stream st @ [(delete_event clk i)\<lparr>Timestamp := publishUnix clk\<rparr>])"
  by (simp add: DeleteRoute_def deleteRouteHandler_def Let_def delete_local_def publish_def
      PublishRouteEvent_def json_response_def delete_event_def)

theorem DeleteRoute_succeeds_witness:
  "redisEnabled (empty_manager True) \<and> \<not> fails store0 CmdXAdd
   \<and> routeCache (empty_manager True) ''ghost'' = None
   \<and> fst (DeleteRoute (empty_manager True) store0 clock0 ''ghost'') = None
   \<and> status (fst (deleteRouteHandler (empty_manager True) store0 clock0 ''ghost'')) = 200
   \<and> map EventType (stream (snd (snd (DeleteRoute (empty_manager True) store0 clock0 ''ghost'')))) = [''DELETE'']
   \<and> map RouteID (stream (snd (snd (DeleteRoute (empty_manager True) store0 clock0 ''ghost'')))) = [''ghost'']"
  using DeleteRoute_succeeds [of "empty_manager True" store0 clock0 "''ghost''"]
  by (simp add: empty_manager_def store0_def delete_event_def PublishRouteEvent_def Let_def)

text \<open>
  Claim C6, as amended. UpdateRoute returns an error and leaves the replica and the store as
  they were when the URL id is not cached or differs from the body's id; the PUT handler
  answers an id that is not cached with status 400 and the message of UpdateRoute.
\<close>
theorem UpdateRoute_refuses:
  "(routeCache rm i = None \<or> i \<noteq> ID newRoute \<longrightarrow>
      (\<exists>err. UpdateRoute rm st clk i newRoute = (Some err, rm, st)))
   \<and> (routeCache rm i = None \<longrightarrow>
        updateRouteHandler rm st clk i (Inr newRoute) =
          (json_response 400 [(''error'', ''route '' @ i @ '' not found'')], rm, st))"
  by (auto simp: UpdateRoute_def updateRouteHandler_def split: option.splits)

theorem UpdateRoute_refuses_witness:
  "routeCache (empty_manager True) ''ghost'' = None
   \<and> ''hello'' \<noteq> ID (hello\<lparr>ID := ''other''\<rparr>)
   \<and> (\<exists>err. UpdateRoute (empty_manager True) store0 clock0 ''ghost'' hello = (Some err, empty_manager True, store0))
   \<and> (\<exists>err. UpdateRoute cached_hello store0 clock0 ''hello'' (hello\<lparr>ID := ''other''\<rparr>) = (Some err, cached_hello, store0))
   \<and> status (fst (updateRouteHandler (empty_manager True) store0 clock0 ''ghost'' (Inr hello))) = 400"
  using UpdateRoute_refuses [of "empty_manager True" "''ghost''" hello store0 clock0]
    UpdateRoute_refuses [of cached_hello "''hello''" "hello\<lparr>ID := ''other''\<rparr>" store0 clock0]
  by (simp add: empty_manager_def json_response_def hello_def)

text \<open>Against claim C6 as stated: the PUT handler's answer to an id that is not cached is
  not 404.\<close>

theorem PUT_unknown_id_counterexample:
  "routeCache (empty_manager True) ''ghost'' = None
   \<and> status (fst (updateRouteHandler (empty_manager True) store0 clock0 ''ghost''
                     (Inr (hello\<lparr>ID := ''ghost''\<rparr>)))) \<noteq> 404"
  by (simp add: updateRouteHandler_def UpdateRoute_def empty_manager_def json_response_def)

section \<open>The matcher\<close>

lemma ladder_cases: "ladder_priority w r path verb \<in> {0, 70, 80, 90, 100}"
  by (simp add: ladder_priority_def)

lemma ladder_nonneg: "0 \<le> ladder_priority w r path verb"
  using ladder_cases [of w r path verb] by auto

text \<open>On a request path that \<open>http.NewRequest\<close> accepts, the priority is computed and is the
  ladder of the specification.\<close>

lemma priority_is_ladder:
  "NewRequestOk w path \<Longrightarrow>
     calculateMatchPriority w r path verb = Returns (ladder_priority w r path verb)"
  by (simp add: calculateMatchPriority_def ladder_priority_def matchPathWithParams_def
      ContainsByte_def Let_def)

lemma matchRoute_loop_spec:
  assumes "NewRequestOk w path"
    and "case acc of None \<Rightarrow> pr = 0
         | Some a \<Rightarrow> ladder_priority w a path verb = pr \<and> 0 < pr"
  shows "\<exists>res. matchRoute_loop w path verb rs acc pr = Returns res \<and>
         (case res of
            None \<Rightarrow> acc = None \<and> (\<forall>r\<in>set rs. ladder_priority w r path verb \<le> 0)
          | Some x \<Rightarrow> (x \<in> set rs \<or> acc = Some x)
              \<and> 0 < ladder_priority w x path verb
              \<and> pr \<le> ladder_priority w x path verb
              \<and> (\<forall>r\<in>set rs. ladder_priority w r path verb \<le> ladder_priority w x path verb))"
  using assms(2)
proof (induction rs arbitrary: acc pr)
  case Nil
  then show ?case by (auto split: option.splits)
next
  case (Cons route rest)
  note p = priority_is_ladder [OF assms(1), of route verb]
  show ?case
  proof (cases "pr < ladder_priority w route path verb")
    case True
    have "case Some route of None \<Rightarrow> ladder_priority w route path verb = 0
           | Some a \<Rightarrow> ladder_priority w a path verb = ladder_priority w route path verb
                \<and> 0 < ladder_priority w route path verb"
      using True Cons.prems by (auto split: option.splits)
    from Cons.IH [OF this] True p show ?thesis
      by (auto split: option.splits)
  next
    case False
    from Cons.IH [OF Cons.prems] False Cons.prems p show ?thesis
      by (auto split: option.splits)
  qed
qed

lemma set_map_filter_range:
  "set ks = dom m \<Longrightarrow> set (List.map_filter m ks) = ran m"
  by (auto simp: List.map_filter_def ran_def dom_def) force+

text \<open>
  What holds of the matcher where it returns: on a request path that \<open>http.NewRequest\<close>
  accepts, for every order in which the range statement may visit the cache, matchRoute
  returns; it returns nil exactly when every cached route has priority 0; and a route it
  returns is cached and no cached route has a higher priority.
\<close>

lemma matchRoute_when_path_parses:
  assumes "range_order (routeCache rm) ks" and "NewRequestOk w path"
  shows "\<exists>res. matchRoute w rm ks path verb = Returns res
    \<and> (res = None \<longleftrightarrow> (\<forall>r\<in>ran (routeCache rm). ladder_priority w r path verb = 0))
    \<and> (\<forall>x. res = Some x \<longrightarrow>
          x \<in> ran (routeCache rm)
          \<and> (\<forall>r\<in>ran (routeCache rm). ladder_priority w r path verb
                                        \<le> ladder_priority w x path verb))"
proof -
  have s: "set (List.map_filter (routeCache rm) ks) = ran (routeCache rm)"
    using assms(1) by (simp add: range_order_def set_map_filter_range)
  have "\<exists>res. matchRoute_loop w path verb (List.map_filter (routeCache rm) ks) None 0 = Returns res \<and>
         (case res of
            None \<Rightarrow> (None :: RouteConfig option) = None
              \<and> (\<forall>r\<in>set (List.map_filter (routeCache rm) ks). ladder_priority w r path verb \<le> 0)
          | Some x \<Rightarrow> (x \<in> set (List.map_filter (routeCache rm) ks) \<or> None = Some x)
              \<and> 0 < ladder_priority w x path verb
              \<and> 0 \<le> ladder_priority w x path verb
              \<and> (\<forall>r\<in>set (List.map_filter (routeCache rm) ks).
                    ladder_priority w r path verb \<le> ladder_priority w x path verb))"
    (is "\<exists>res. ?P res \<and> ?Q res")
    by (rule matchRoute_loop_spec [OF assms(2)]) simp
  then obtain res where r0: "?P res" and l0: "?Q res" by blast
  have r: "matchRoute w rm ks path verb = Returns res"
    using r0 by (simp add: matchRoute_def)
  have l: "case res of
           None \<Rightarrow> (\<forall>r\<in>ran (routeCache rm). ladder_priority w r path verb \<le> 0)
         | Some x \<Rightarrow> x \<in> ran (routeCache rm)
             \<and> 0 < ladder_priority w x path verb
             \<and> (\<forall>r\<in>ran (routeCache rm). ladder_priority w r path verb
                              \<le> ladder_priority w x path verb)"
    using l0 unfolding s by (cases res) simp_all
  have a: "res = None \<longleftrightarrow> (\<forall>r\<in>ran (routeCache rm). ladder_priority w r path verb = 0)"
  proof (cases res)
    case None
    then show ?thesis using l ladder_nonneg [of w _ path verb]
      by (auto simp: order_antisym)
  next
    case (Some x)
    then show ?thesis using l by force
  qed
  have b: "\<forall>x. res = Some x \<longrightarrow>
          x \<in> ran (routeCache rm)
          \<and> (\<forall>r\<in>ran (routeCache rm). ladder_priority w r path verb
                                        \<le> ladder_priority w x path verb)"
    using l by (auto split: option.splits)
  show ?thesis using r a b by blast
qed

lemma two_routes_order: "range_order (routeCache two_routes) [''wild'', ''exact'', ''odd'']"
  by (auto simp: range_order_def two_routes_def)

lemma match_exact:
  "matchRoute world0 two_routes [''wild'', ''exact'', ''odd''] ''/a/b'' ''GET'' = Returns (Some exact_route)"
  by (simp add: matchRoute_def List.map_filter_def two_routes_def calculateMatchPriority_def
      matchPathWithParams_def world0_def wild_route_def exact_route_def odd_route_def hello_def
      HasPrefix_def ContainsByte_def ReplaceAllByte_def)

lemma match_wild:
  "matchRoute world0 two_routes [''wild'', ''exact'', ''odd''] ''/a/c'' ''GET'' = Returns (Some wild_route)"
  by (simp add: matchRoute_def List.map_filter_def two_routes_def calculateMatchPriority_def
      matchPathWithParams_def world0_def wild_route_def exact_route_def odd_route_def hello_def
      HasPrefix_def ContainsByte_def ReplaceAllByte_def)

lemma match_odd:
  "matchRoute world0 two_routes [''wild'', ''exact'', ''odd''] ''/odd'' ''GET'' = Returns (Some odd_route)"
  by (simp add: matchRoute_def List.map_filter_def two_routes_def calculateMatchPriority_def
      matchPathWithParams_def world0_def wild_route_def exact_route_def odd_route_def hello_def
      HasPrefix_def ContainsByte_def ReplaceAllByte_def)

lemma match_none:
  "matchRoute world0 two_routes [''wild'', ''exact'', ''odd''] ''/zzz'' ''GET'' = Returns None"
  by (simp add: matchRoute_def List.map_filter_def two_routes_def calculateMatchPriority_def
      matchPathWithParams_def world0_def wild_route_def exact_route_def odd_route_def hello_def
      HasPrefix_def ContainsByte_def ReplaceAllByte_def)

lemma auth_ok: "authenticateGatewayRequest world0 ''dify-sandbox''"
  by (simp add: authenticateGatewayRequest_def world0_def)

lemma hello_order: "range_order (routeCache cached_hello) [''hello'']"
  by (simp add: range_order_def cached_hello_eval)

text \<open>
  Claim C1 fails on the code. The replica caches the one route \<open>hello\<close>, with path
  \<open>/api/hello\<close> and method GET, and the gateway receives \<open>GET /a%25zz\<close>, whose decoded path
  is \<open>/a%zz\<close>. By the ladder the route has priority 0, so the claim has matchRoute return
  nil. In the code the methods agree and the paths differ, so \<open>matchPathWithParams\<close> runs;
  \<open>http.NewRequest\<close> rejects the path, its error is dropped, and mux is handed a nil request:
  matchRoute panics and returns nothing.
\<close>

theorem matchRoute_panics_on_unparsable_path:
  "range_order (routeCache cached_hello) [''hello'']
   \<and> ladder_priority world0 (the (routeCache cached_hello ''hello'')) ''/a%zz'' ''GET'' = 0
   \<and> matchRoute world0 cached_hello [''hello''] ''/a%zz'' ''GET'' = Panics
   \<and> matchRoute world0 cached_hello [''hello''] ''/a%zz'' ''GET'' \<noteq> Returns None"
  using hello_order
  by (simp add: matchRoute_def List.map_filter_def cached_hello_eval calculateMatchPriority_def
      ladder_priority_def matchPathWithParams_def world0_def hello_def HasPrefix_def)

section \<open>The dispatcher\<close>

text \<open>
  What holds of the dispatcher where the matcher returns, for every request that passes the
  gateway's key check: no route gives 404 with the body \<open>{"error": "route not found"}\<close>; a
  sandbox route with no healthy instance of its sandbox type gives 503; a sandbox route whose
  forward to the chosen instance fails in \<open>client.Do\<close> gives 502; a proxy or static route
  gives 501; a route with any other handler gives 500.
\<close>

lemma gateway_error_statuses:
  assumes "authenticateGatewayRequest w apiKey"
  shows "(matchRoute w rm ks path verb = Returns None \<longrightarrow>
            fst (authenticatedRouteHandler w rm ks pool path verb apiKey)
              = Responded (json_response 404 [(''error'', ''route not found'')]))
    \<and> (matchRoute w rm ks path verb = Returns (Some route) \<and> Handler route = ''sandbox''
         \<and> (\<forall>i\<in>set (instances pool). \<not> healthy_of (SandboxType route) i) \<longrightarrow>
            (\<exists>r. fst (authenticatedRouteHandler w rm ks pool path verb apiKey) = Responded r
                  \<and> status r = 503))
    \<and> (matchRoute w rm ks path verb = Returns (Some route) \<and> Handler route = ''sandbox''
         \<and> GetHealthyInstance w pool (SandboxType route) = Inr (Some inst, pool')
         \<and> NewRequestOk w (URL inst @ ''/run'')
         \<and> Do w (sandbox_request w inst (executionReq route) apiKey) = DoError e \<longrightarrow>
            (\<exists>r. fst (authenticatedRouteHandler w rm ks pool path verb apiKey) = Responded r
                  \<and> status r = 502))
    \<and> (matchRoute w rm ks path verb = Returns (Some route)
         \<and> (Handler route = ''proxy'' \<or> Handler route = ''static'') \<longrightarrow>
            (\<exists>r. fst (authenticatedRouteHandler w rm ks pool path verb apiKey) = Responded r
                  \<and> status r = 501))
    \<and> (matchRoute w rm ks path verb = Returns (Some route)
         \<and> Handler route \<noteq> ''sandbox'' \<and> Handler route \<noteq> ''proxy'' \<and> Handler route \<noteq> ''static'' \<longrightarrow>
            (\<exists>r. fst (authenticatedRouteHandler w rm ks pool path verb apiKey) = Responded r
                  \<and> status r = 500))"
proof -
  have no_candidates:
    "(\<forall>i\<in>set (instances pool). \<not> healthy_of (SandboxType route) i) \<Longrightarrow>
       filter (healthy_of (SandboxType route)) (instances pool) = []"
    by (simp add: filter_empty_conv)
  show ?thesis
    using assms no_candidates
    by (auto simp: authenticatedRouteHandler_def dynamicRouteHandler_def dispatch_def
        handleSandboxRequest_def GetHealthyInstance_def forwardToSandbox_def json_response_def
        handleProxyRequest_def handleStaticRequest_def Let_def)
qed

lemma gateway_statuses_at_examples:
  "status (case fst (authenticatedRouteHandler world0 two_routes [''wild'', ''exact'', ''odd'']
                       pool_up ''/zzz'' ''GET'' ''dify-sandbox'') of Responded r \<Rightarrow> r) = 404
   \<and> status (case fst (authenticatedRouteHandler world0 two_routes [''wild'', ''exact'', ''odd'']
                       pool_down ''/a/b'' ''GET'' ''dify-sandbox'') of Responded r \<Rightarrow> r) = 503
   \<and> status (case fst (authenticatedRouteHandler world0 two_routes [''wild'', ''exact'', ''odd'']
                       pool_up ''/a/b'' ''GET'' ''dify-sandbox'') of Responded r \<Rightarrow> r) = 502
   \<and> status (case fst (authenticatedRouteHandler world0 two_routes [''wild'', ''exact'', ''odd'']
                       pool_up ''/a/c'' ''GET'' ''dify-sandbox'') of Responded r \<Rightarrow> r) = 501
   \<and> status (case fst (authenticatedRouteHandler world0 two_routes [''wild'', ''exact'', ''odd'']
                       pool_up ''/odd'' ''GET'' ''dify-sandbox'') of Responded r \<Rightarrow> r) = 500"
proof -
  have g: "GetHealthyInstance world0 pool_up (SandboxType exact_route)
             = Inr (Some (bump python1), pool_up\<lparr>instances := [bump python1]\<rparr>)"
    by (simp add: GetHealthyInstance_def pool_up_def healthy_of_def python1_def exact_route_def
        hello_def Select_def leastConnections_def maxInt_def write_back_def bump_def
        word_sless_alt)
  have d: "\<forall>i\<in>set (instances pool_down). \<not> healthy_of (SandboxType exact_route) i"
    by (simp add: pool_down_def healthy_of_def python1_def)
  have n: "NewRequestOk world0 (URL (bump python1) @ ''/run'')"
    "Do world0 (sandbox_request world0 (bump python1) (executionReq exact_route) ''dify-sandbox'')
       = DoError ''connection refused''"
    by (simp_all add: world0_def bump_def python1_def)
  have h: "Handler exact_route = ''sandbox''" "Handler wild_route = ''proxy''"
    "Handler odd_route \<noteq> ''sandbox'' \<and> Handler odd_route \<noteq> ''proxy'' \<and> Handler odd_route \<noteq> ''static''"
    by (simp_all add: exact_route_def wild_route_def odd_route_def hello_def)
  have s404: "status (case fst (authenticatedRouteHandler world0 two_routes [''wild'', ''exact'', ''odd'']
                       pool_up ''/zzz'' ''GET'' ''dify-sandbox'') of Responded r \<Rightarrow> r) = 404"
    using gateway_error_statuses [OF auth_ok, where rm = two_routes and
        ks = "[''wild'', ''exact'', ''odd'']" and path = "''/zzz''" and verb = "''GET''" and
        pool = pool_up and route = hello and inst = python1 and pool' = pool_up and
        e = "[]"] match_none
    by (simp add: json_response_def)
  have s503: "status (case fst (authenticatedRouteHandler world0 two_routes [''wild'', ''exact'', ''odd'']
                       pool_down ''/a/b'' ''GET'' ''dify-sandbox'') of Responded r \<Rightarrow> r) = 503"
    using gateway_error_statuses [OF auth_ok, where rm = two_routes and
        ks = "[''wild'', ''exact'', ''odd'']" and path = "''/a/b''" and verb = "''GET''" and
        pool = pool_down and route = exact_route and inst = python1 and pool' = pool_up and
        e = "[]"] match_exact d h(1)
    by auto
  have s502: "status (case fst (authenticatedRouteHandler world0 two_routes [''wild'', ''exact'', ''odd'']
                       pool_up ''/a/b'' ''GET'' ''dify-sandbox'') of Responded r \<Rightarrow> r) = 502"
    using gateway_error_statuses [OF auth_ok, where rm = two_routes and
        ks = "[''wild'', ''exact'', ''odd'']" and path = "''/a/b''" and verb = "''GET''" and
        pool = pool_up and route = exact_route and inst = "bump python1" and
        pool' = "pool_up\<lparr>instances := [bump python1]\<rparr>" and e = "''connection refused''"]
      match_exact g n h(1)
    by auto
  have s501: "status (case fst (authenticatedRouteHandler world0 two_routes [''wild'', ''exact'', ''odd'']
                       pool_up ''/a/c'' ''GET'' ''dify-sandbox'') of Responded r \<Rightarrow> r) = 501"
    using gateway_error_statuses [OF auth_ok, where rm = two_routes and
        ks = "[''wild'', ''exact'', ''odd'']" and path = "''/a/c''" and verb = "''GET''" and
        pool = pool_up and route = wild_route and inst = python1 and pool' = pool_up and
        e = "[]"] match_wild h(2)
    by auto
  have s500: "status (case fst (authenticatedRouteHandler world0 two_routes [''wild'', ''exact'', ''odd'']
                       pool_up ''/odd'' ''GET'' ''dify-sandbox'') of Responded r \<Rightarrow> r) = 500"
    using gateway_error_statuses [OF auth_ok, where rm = two_routes and
        ks = "[''wild'', ''exact'', ''odd'']" and path = "''/odd''" and verb = "''GET''" and
        pool = pool_up and route = odd_route and inst = python1 and pool' = pool_up and
        e = "[]"] match_odd h(3)
    by auto
  show ?thesis using s404 s503 s502 s501 s500 by simp
qed

text \<open>
  Claim C7 fails on the code, by the defect of claim C1. With the one route \<open>hello\<close> cached,
  the request \<open>GET /a%25zz\<close> carries the gateway key and matches no route, so the claim has
  the gateway answer 404 with \<open>{"error": "route not found"}\<close>. In the code the handler calls
  matchRoute, which panics on the nil request: the handler writes no response.
\<close>

theorem gateway_panics_on_unparsable_path:
  "authenticateGatewayRequest world0 ''dify-sandbox''
   \<and> ladder_priority world0 (the (routeCache cached_hello ''hello'')) ''/a%zz'' ''GET'' = 0
   \<and> fst (authenticatedRouteHandler world0 cached_hello [''hello''] pool_up ''/a%zz'' ''GET''
             ''dify-sandbox'') = Panicked
   \<and> fst (authenticatedRouteHandler world0 cached_hello [''hello''] pool_up ''/a%zz'' ''GET''
             ''dify-sandbox'')
       \<noteq> Responded (json_response 404 [(''error'', ''route not found'')])"
  using auth_ok
  by (simp add: authenticatedRouteHandler_def dynamicRouteHandler_def matchRoute_def
      List.map_filter_def cached_hello_eval calculateMatchPriority_def ladder_priority_def
      matchPathWithParams_def world0_def hello_def HasPrefix_def authenticateGatewayRequest_def)

text \<open>
  Claim C8 fails on the code. handleSandboxRequest always stores the route's \<open>Timeout\<close>, an
  \<open>int\<close>, in the envelope, so the type assertion in forwardToSandbox always succeeds and the
  30 s default is never used: the client timeout is \<open>Timeout\<close> seconds for every route, and
  for a route without a timeout (\<open>Timeout = 0\<close>) it is 0, not 30 s.
\<close>

theorem sandbox_timeout_never_default:
  "req_timeout (sandbox_request w instance (executionReq route) apiKey) = Timeout route * Second
   \<and> req_timeout (sandbox_request w instance (executionReq (hello\<lparr>Timeout := 0\<rparr>)) apiKey) = 0
   \<and> req_timeout (sandbox_request w instance (executionReq (hello\<lparr>Timeout := 0\<rparr>)) apiKey)
       \<noteq> 30 * Second"
  by (simp add: sandbox_request_def client_timeout_def executionReq_def Second_def)

section \<open>Authentication\<close>




end
